theory Spec2Isabelle
  imports Main
begin

section \<open>The websocket client of fluent/client/ws\_client.go\<close>

text \<open>
  The file holds the credential holder \<open>IAMAuthInfo\<close>, the default connection
  factory \<open>DefaultWSConnectionFactory\<close> and the client \<open>WSClient\<close> with its five
  methods. The model is sequential: the receiver \<open>c *WSClient\<close> is passed in and
  returned, the objects behind the pointers \<open>*IAMAuthInfo\<close> and
  \<open>*DefaultWSConnectionFactory\<close> live in a store, and every call that leaves
  the file (the websocket dial, a caller-supplied factory, \<open>ws.NewConnection\<close>,
  \<open>Close\<close>, \<open>msgp.Encode\<close>, \<open>Connection.Listen\<close>) is recorded in a trace and
  answered by an environment that may look at the whole trace so far. Those
  calls are taken to return, but for \<open>msgp.Encode\<close>: it is handed the
  Session's Connection as the writer, which SendMessage does not test, and it
  panics when it writes to a nil one. The other panics in the model are those
  of the code of this file.
\<close>

subsection \<open>Values\<close>

text \<open>
  Go errors. \<open>errors.New\<close> is the only place where this file makes an error of
  its own; every other error comes back from a collaborator and is passed on
  as it is.
\<close>

datatype error = errors_New string | Foreign nat

text \<open>
  A run-time panic of Go code in this file: an assignment to an entry of a nil
  map, and a method call or field read through a nil interface or an invalid
  pointer.
\<close>

datatype panic = NilMapAssignment | InvalidMemoryAddress

datatype 'a outcome = Returned 'a | Panicked panic

text \<open>
  Modelled from the spec: the type \<open>ServerAddress\<close> and its method \<open>String\<close> are
  declared in another file of the package. The spec calls it an immutable
  value that resolves to a connection target string, so an address is the
  string it resolves to.
\<close>

datatype ServerAddress = Address (ServerAddress_String: string)

text \<open>
  Handles of the collaborators' types \<open>ext.Conn\<close>, \<open>ws.Connection\<close>,
  \<open>ws.ConnectionOptions\<close> and \<open>msgp.Encodable\<close>; this file never looks inside.
\<close>

datatype ext_Conn = ExtConn nat
datatype ws_Connection = WsConnection nat
datatype ws_ConnectionOptions = WsConnectionOptions nat
datatype msgp_Encodable = Encodable nat

text \<open>
  \<open>http.Header\<close> is a Go map from a header name to its values. A map variable
  that is only declared is nil, which is \<open>None\<close> here; \<open>Add\<close> appends the value
  under the key by an assignment to the map entry, and such an assignment
  panics on a nil map.
\<close>

type_synonym http_Header = "(string \<rightharpoonup> string list) option"

definition Header_Add :: "http_Header \<Rightarrow> string \<Rightarrow> string \<Rightarrow> http_Header outcome" where
  "Header_Add h key v =
     (case h of
        None \<Rightarrow> Panicked NilMapAssignment
      | Some m \<Rightarrow>
          Returned (Some (m(key \<mapsto> (case m key of None \<Rightarrow> [] | Some vs \<Rightarrow> vs) @ [v]))))"

definition AuthorizationHeader :: string where
  "AuthorizationHeader = ''Authorization''"

subsection \<open>IAMAuthInfo\<close>

text \<open>
  The mutex field guards the token against concurrent access and has no
  content in a sequential model.
\<close>

record IAMAuthInfo =
  token :: string

definition IAMToken :: "IAMAuthInfo \<Rightarrow> string" where
  "IAMToken ai = token ai"

definition SetIAMToken :: "IAMAuthInfo \<Rightarrow> string \<Rightarrow> IAMAuthInfo" where
  "SetIAMToken ai t = ai\<lparr>token := t\<rparr>"

definition NewIAMAuthInfo :: "string \<Rightarrow> IAMAuthInfo" where
  "NewIAMAuthInfo t = \<lparr>token = t\<rparr>"

subsection \<open>Sessions, factories, the client\<close>

text \<open>A pointer is an index into the store of its type, or nil.\<close>

type_synonym ptr = "nat option"

record WSSession =
  ServerAddress_s :: ServerAddress
  Connection :: "ws_Connection option"

record DefaultWSConnectionFactory =
  ServerAddress_f :: ServerAddress
  AuthInfo_f :: ptr

text \<open>
  A non-nil value of the interface \<open>WSConnectionFactory\<close>: a pointer to a
  default factory, or an implementation supplied by the caller.
\<close>

datatype WSConnectionFactory = DefaultRef nat | Custom nat

record WSClient =
  ConnectionFactory :: "WSConnectionFactory option"
  ServerAddress :: ServerAddress
  AuthInfo :: ptr
  ConnectionOptions :: ws_ConnectionOptions
  Session :: "WSSession option"

subsection \<open>The world outside the client\<close>

datatype event =
    EvDial string http_Header
  | EvCustomNew nat
  | EvNewConnection "ext_Conn option" ws_ConnectionOptions
  | EvClose ws_Connection
  | EvEncode "ws_Connection option" msgp_Encodable
  | EvListen ws_Connection

text \<open>
  The stores grow by allocation at the end, so a fresh address is the length
  of the store.
\<close>

record world =
  auth_heap :: "IAMAuthInfo list"
  factory_heap :: "DefaultWSConnectionFactory list"
  trace :: "event list"

definition deref :: "'a list \<Rightarrow> nat \<Rightarrow> 'a option" where
  "deref h p = (if p < length h then Some (h ! p) else None)"

text \<open>
  What the collaborators answer; they are parameters of the model, none of
  their code is in this file (\<open>ws.NewConnection\<close> and the Connection it makes
  belong to the package \<open>ws\<close>, the dialer to gorilla/websocket, \<open>Encode\<close> to
  msgp). A Go call that returns \<open>(value, error)\<close> answers a pair, either of
  which may be nil. An error of a collaborator is a number \<open>k\<close>, which this
  file sees as \<open>Foreign k\<close>. The first argument is the trace at the time of the
  call, so the same call may be answered differently later. \<open>Encode\<close> answers
  an outcome: with a nil writer \<open>msgp.Encode\<close> panics on the nil interface as
  soon as it flushes a byte, and returns only when the message fails to
  encode or encodes to nothing.
\<close>

record env =
  Dial :: "event list \<Rightarrow> string \<Rightarrow> http_Header \<Rightarrow> ext_Conn option \<times> nat option"
  custom_New :: "event list \<Rightarrow> nat \<Rightarrow> ext_Conn option \<times> nat option"
  NewConnection :: "event list \<Rightarrow> ext_Conn option \<Rightarrow> ws_ConnectionOptions
                      \<Rightarrow> ws_Connection option \<times> nat option"
  Close :: "event list \<Rightarrow> ws_Connection \<Rightarrow> nat option"
  Encode :: "event list \<Rightarrow> ws_Connection option \<Rightarrow> msgp_Encodable \<Rightarrow> nat option outcome"
  conn_Listen :: "event list \<Rightarrow> ws_Connection \<Rightarrow> nat option"

definition emit :: "event \<Rightarrow> world \<Rightarrow> world" where
  "emit ev w = w\<lparr>trace := trace w @ [ev]\<rparr>"

subsection \<open>DefaultWSConnectionFactory.New\<close>

text \<open>
  Lines 65 to 72: \<open>header\<close> is declared and never made, so it is nil when
  \<open>header.Add\<close> runs. The token is read twice, once for the test and once for
  the value.
\<close>

definition New_header :: "DefaultWSConnectionFactory \<Rightarrow> world \<Rightarrow> http_Header outcome" where
  "New_header wcf w =
     (let header = (None :: http_Header) in
      case AuthInfo_f wcf of
        None \<Rightarrow> Returned header
      | Some p \<Rightarrow>
          (case deref (auth_heap w) p of
             None \<Rightarrow> Panicked InvalidMemoryAddress
           | Some ai \<Rightarrow>
               if length (IAMToken ai) > 0
               then Header_Add header AuthorizationHeader (IAMToken ai)
               else Returned header))"

definition New :: "env \<Rightarrow> DefaultWSConnectionFactory \<Rightarrow> world
    \<Rightarrow> (ext_Conn option \<times> error option) outcome \<times> world" where
  "New e wcf w =
     (case New_header wcf w of
        Panicked p \<Rightarrow> (Panicked p, w)
      | Returned header \<Rightarrow>
          (let addr = ServerAddress_String (ServerAddress_f wcf);
               (conn, err) = Dial e (trace w) addr header
           in (Returned (conn, map_option Foreign err), emit (EvDial addr header) w)))"

text \<open>The call \<open>c.ConnectionFactory.New()\<close> through the interface.\<close>

fun WSConnectionFactory_New :: "env \<Rightarrow> WSConnectionFactory \<Rightarrow> world
    \<Rightarrow> (ext_Conn option \<times> error option) outcome \<times> world" where
  "WSConnectionFactory_New e (DefaultRef p) w =
     (case deref (factory_heap w) p of
        None \<Rightarrow> (Panicked InvalidMemoryAddress, w)
      | Some wcf \<Rightarrow> New e wcf w)"
| "WSConnectionFactory_New e (Custom k) w =
     (let (conn, err) = custom_New e (trace w) k
      in (Returned (conn, map_option Foreign err), emit (EvCustomNew k) w))"

subsection \<open>The methods of WSClient\<close>

text \<open>
  Each method returns what the Go method returns (nil is \<open>None\<close>) or the panic
  that ended it, with the client and the world as they are at that moment.
\<close>

type_synonym result = "error option outcome \<times> WSClient \<times> world"

text \<open>
  Lines 94 to 99: the default factory is made when the field is nil. The
  first component is the factory the field holds afterwards.
\<close>

definition default_factory :: "WSClient \<Rightarrow> world \<Rightarrow> WSConnectionFactory \<times> WSClient \<times> world" where
  "default_factory c w =
     (case ConnectionFactory c of
        None \<Rightarrow>
          (let f = DefaultRef (length (factory_heap w))
           in (f,
               c\<lparr>ConnectionFactory := Some f\<rparr>,
               w\<lparr>factory_heap := factory_heap w @
                    [\<lparr>ServerAddress_f = ServerAddress c, AuthInfo_f = AuthInfo c\<rparr>]\<rparr>))
      | Some f \<Rightarrow> (f, c, w))"

text \<open>Lines 101 to 116, for the factory \<open>f\<close> that the field holds by then.\<close>

definition Connect_with :: "env \<Rightarrow> WSConnectionFactory \<Rightarrow> WSClient \<Rightarrow> world \<Rightarrow> result" where
  "Connect_with e f c w =
     (case WSConnectionFactory_New e f w of
        (Panicked p, w1) \<Rightarrow> (Panicked p, c, w1)
      | (Returned (conn, Some err), w1) \<Rightarrow> (Returned (Some err), c, w1)
      | (Returned (conn, None), w1) \<Rightarrow>
          (let opts = ConnectionOptions c;
               w2 = emit (EvNewConnection conn opts) w1
           in case NewConnection e (trace w1) conn opts of
                (connection, Some err) \<Rightarrow> (Returned (Some (Foreign err)), c, w2)
              | (connection, None) \<Rightarrow>
                  (Returned None,
                   c\<lparr>Session := Some \<lparr>ServerAddress_s = ServerAddress c,
                                      Connection = connection\<rparr>\<rparr>,
                   w2)))"

definition Connect :: "env \<Rightarrow> WSClient \<Rightarrow> world \<Rightarrow> result" where
  "Connect e c w =
     (let (f, c1, w1) = default_factory c w
      in Connect_with e f c1 w1)"

text \<open>
  \<open>Close\<close> is called through the interface value \<open>c.Session.Connection\<close>; when
  that is nil the call panics before the Session is cleared.
\<close>

definition Disconnect :: "env \<Rightarrow> WSClient \<Rightarrow> world \<Rightarrow> result" where
  "Disconnect e c w =
     (case Session c of
        None \<Rightarrow> (Returned None, c\<lparr>Session := None\<rparr>, w)
      | Some s \<Rightarrow>
          (case Connection s of
             None \<Rightarrow> (Panicked InvalidMemoryAddress, c, w)
           | Some cn \<Rightarrow>
               (Returned (map_option Foreign (Close e (trace w) cn)),
                c\<lparr>Session := None\<rparr>,
                emit (EvClose cn) w)))"

definition Reconnect :: "env \<Rightarrow> WSClient \<Rightarrow> world \<Rightarrow> result" where
  "Reconnect e c w =
     (case Disconnect e c w of
        (Returned None, c1, w1) \<Rightarrow> Connect e c1 w1
      | (Returned (Some err), c1, w1) \<Rightarrow> (Returned (Some err), c1, w1)
      | (Panicked p, c1, w1) \<Rightarrow> (Panicked p, c1, w1))"

definition SendMessage :: "env \<Rightarrow> msgp_Encodable \<Rightarrow> WSClient \<Rightarrow> world \<Rightarrow> result" where
  "SendMessage e m c w =
     (case Session c of
        None \<Rightarrow> (Returned (Some (errors_New ''No active session'')), c, w)
      | Some s \<Rightarrow>
          (map_outcome (map_option Foreign) (Encode e (trace w) (Connection s) m),
           c,
           emit (EvEncode (Connection s) m) w))"

definition Listen :: "env \<Rightarrow> WSClient \<Rightarrow> world \<Rightarrow> result" where
  "Listen e c w =
     (case Session c of
        None \<Rightarrow> (Returned (Some (errors_New ''No active session'')), c, w)
      | Some s \<Rightarrow>
          (case Connection s of
             None \<Rightarrow> (Returned (Some (errors_New ''No active session'')), c, w)
           | Some cn \<Rightarrow>
               (Returned (map_option Foreign (conn_Listen e (trace w) cn)),
                c,
                emit (EvListen cn) w)))"

subsection \<open>Calls in sequence\<close>

text \<open>
  A caller that keeps using the client after a call, whatever the call
  returned (a panic can be recovered, and the client is as the panic left it).
\<close>

datatype call = CallConnect | CallDisconnect | CallReconnect
  | CallSendMessage msgp_Encodable | CallListen

fun run_call :: "env \<Rightarrow> call \<Rightarrow> WSClient \<Rightarrow> world \<Rightarrow> result" where
  "run_call e CallConnect c w = Connect e c w"
| "run_call e CallDisconnect c w = Disconnect e c w"
| "run_call e CallReconnect c w = Reconnect e c w"
| "run_call e (CallSendMessage m) c w = SendMessage e m c w"
| "run_call e CallListen c w = Listen e c w"

fun run_calls :: "env \<Rightarrow> call list \<Rightarrow> WSClient \<Rightarrow> world \<Rightarrow> WSClient \<times> world" where
  "run_calls e [] c w = (c, w)"
| "run_calls e (x # xs) c w =
     (case run_call e x c w of (r, c1, w1) \<Rightarrow> run_calls e xs c1 w1)"

subsection \<open>A fake environment and some clients\<close>

text \<open>
  Fakes in the manner of the generated counterfeiter doubles: the dial and
  the caller's factory 0 succeed, any other caller's factory fails with
  error 7; wrapping succeeds under options 0 and fails with error 8 under any
  other; closing connection 0 succeeds and closing any other fails with
  error 9; encoding to a Connection succeeds and encoding to the nil writer
  panics.
\<close>

definition fake_env :: env where
  "fake_env =
     \<lparr>Dial = (\<lambda>tr addr h. (Some (ExtConn 0), None)),
      custom_New = (\<lambda>tr k. if k = 0 then (Some (ExtConn 1), None) else (None, Some 7)),
      NewConnection = (\<lambda>tr conn opts.
         if opts = WsConnectionOptions 0 then (Some (WsConnection 0), None)
         else (None, Some 8)),
      Close = (\<lambda>tr cn. if cn = WsConnection 0 then None else Some 9),
      Encode = (\<lambda>tr cn m.
         case cn of None \<Rightarrow> Panicked InvalidMemoryAddress | Some x \<Rightarrow> Returned None),
      conn_Listen = (\<lambda>tr cn. None)\<rparr>"

definition endpoint :: ServerAddress where
  "endpoint = Address ''ws://localhost:8083''"

definition empty_world :: world where
  "empty_world = \<lparr>auth_heap = [], factory_heap = [], trace = []\<rparr>"

text \<open>A world that holds one credential, \<open>NewIAMAuthInfo("secret")\<close>, at address 0.\<close>

definition token_world :: world where
  "token_world = \<lparr>auth_heap = [NewIAMAuthInfo ''secret''], factory_heap = [], trace = []\<rparr>"

definition token_factory :: DefaultWSConnectionFactory where
  "token_factory = \<lparr>ServerAddress_f = endpoint, AuthInfo_f = Some 0\<rparr>"

text \<open>A client as a caller writes it down, with no factory and no credential.\<close>

definition plain_client :: WSClient where
  "plain_client =
     \<lparr>ConnectionFactory = None, ServerAddress = endpoint, AuthInfo = None,
      ConnectionOptions = WsConnectionOptions 0, Session = None\<rparr>"

definition session_of :: "ws_Connection option \<Rightarrow> WSSession" where
  "session_of cn = \<lparr>ServerAddress_s = endpoint, Connection = cn\<rparr>"

section \<open>Properties\<close>

subsection \<open>Frame lemmas\<close>

lemma update_Session_None: "Session c = None \<Longrightarrow> c\<lparr>Session := None\<rparr> = c"
  by (cases c) simp

lemma default_factory_set:
  "ConnectionFactory c = Some f \<Longrightarrow> default_factory c w = (f, c, w)"
  by (simp add: default_factory_def)

lemma default_factory_unset:
  "ConnectionFactory c = None \<Longrightarrow>
   default_factory c w =
     (DefaultRef (length (factory_heap w)),
      c\<lparr>ConnectionFactory := Some (DefaultRef (length (factory_heap w)))\<rparr>,
      w\<lparr>factory_heap := factory_heap w @
           [\<lparr>ServerAddress_f = ServerAddress c, AuthInfo_f = AuthInfo c\<rparr>]\<rparr>)"
  by (simp add: default_factory_def Let_def)

lemma default_factory_frame:
  assumes "default_factory c w = (f, c1, w1)"
  shows "ConnectionFactory c1 = Some f \<and> Session c1 = Session c
       \<and> ServerAddress c1 = ServerAddress c \<and> ConnectionOptions c1 = ConnectionOptions c
       \<and> AuthInfo c1 = AuthInfo c \<and> trace w1 = trace w \<and> auth_heap w1 = auth_heap w"
  using assms by (auto simp add: default_factory_def Let_def split: option.splits)

lemma New_frame:
  assumes "New e wcf w = (r, w1)"
  shows "factory_heap w1 = factory_heap w \<and> auth_heap w1 = auth_heap w"
  using assms
  by (auto simp add: New_def emit_def Let_def split: outcome.splits prod.splits)

lemma WSConnectionFactory_New_frame:
  assumes "WSConnectionFactory_New e f w = (r, w1)"
  shows "factory_heap w1 = factory_heap w \<and> auth_heap w1 = auth_heap w"
proof (cases f)
  case (DefaultRef p)
  with assms show ?thesis
    by (auto split: option.splits dest: New_frame)
next
  case (Custom k)
  with assms show ?thesis
    by (auto simp add: emit_def split: prod.splits)
qed

lemma Connect_with_frame:
  assumes "Connect_with e f c w = (r, c1, w1)"
  shows "ConnectionFactory c1 = ConnectionFactory c \<and> factory_heap w1 = factory_heap w"
proof -
  obtain r0 w0 where n: "WSConnectionFactory_New e f w = (r0, w0)"
    by (cases "WSConnectionFactory_New e f w")
  from WSConnectionFactory_New_frame [OF n]
  have h: "factory_heap w0 = factory_heap w" by simp
  from assms n h show ?thesis
    by (auto simp add: Connect_with_def Let_def emit_def
        split: outcome.splits prod.splits option.splits)
qed

lemma Connect_with_error:
  assumes "Connect_with e f c w = (Returned (Some err), c1, w1)"
  shows "c1 = c \<and>
     (case WSConnectionFactory_New e f w of (r, w0) \<Rightarrow>
        (\<exists>conn. r = Returned (conn, Some err)) \<or>
        (\<exists>conn k. r = Returned (conn, None)
            \<and> snd (NewConnection e (trace w0) conn (ConnectionOptions c)) = Some k
            \<and> err = Foreign k))"
  using assms
  by (auto simp add: Connect_with_def Let_def split: outcome.splits prod.splits option.splits)

text \<open>
  Lines 101 to 116 read forwards: what \<open>Connect\<close> does is decided by what
  \<open>New\<close> on the factory answered and, after a \<open>New\<close> without error, by what the
  wrapping step answered.
\<close>

lemma Connect_with_New_panic:
  "WSConnectionFactory_New e f w = (Panicked p, w0) \<Longrightarrow>
   Connect_with e f c w = (Panicked p, c, w0)"
  by (simp add: Connect_with_def)

lemma Connect_with_New_error:
  "WSConnectionFactory_New e f w = (Returned (conn, Some err), w0) \<Longrightarrow>
   Connect_with e f c w = (Returned (Some err), c, w0)"
  by (simp add: Connect_with_def)

lemma Connect_with_wrap_error:
  "WSConnectionFactory_New e f w = (Returned (conn, None), w0) \<Longrightarrow>
   NewConnection e (trace w0) conn (ConnectionOptions c) = (connection, Some k) \<Longrightarrow>
   Connect_with e f c w =
     (Returned (Some (Foreign k)), c, emit (EvNewConnection conn (ConnectionOptions c)) w0)"
  by (simp add: Connect_with_def)

lemma Connect_with_wrap_ok:
  "WSConnectionFactory_New e f w = (Returned (conn, None), w0) \<Longrightarrow>
   NewConnection e (trace w0) conn (ConnectionOptions c) = (connection, None) \<Longrightarrow>
   Connect_with e f c w =
     (Returned None,
      c\<lparr>Session := Some \<lparr>ServerAddress_s = ServerAddress c, Connection = connection\<rparr>\<rparr>,
      emit (EvNewConnection conn (ConnectionOptions c)) w0)"
  by (simp add: Connect_with_def)

text \<open>The calls of \<open>Connect\<close> start with the call of \<open>New\<close> on the factory.\<close>

lemma Connect_with_calls_New:
  assumes "Connect_with e f c w = (r, c', w')"
      and "WSConnectionFactory_New e f w = (r0, w0)"
  shows "(\<exists>ext. trace w' = trace w0 @ ext)
       \<and> (case r0 of
            Panicked p \<Rightarrow> r = Panicked p \<and> w' = w0
          | Returned (conn, nerr) \<Rightarrow>
              (case nerr of
                 Some err \<Rightarrow> r = Returned (Some err) \<and> w' = w0
               | None \<Rightarrow> w' = emit (EvNewConnection conn (ConnectionOptions c)) w0))"
  using assms
  by (auto simp add: Connect_with_def Let_def emit_def
      split: outcome.splits prod.splits option.splits)

lemma Custom_New_trace:
  "WSConnectionFactory_New e (Custom k) w = (r0, w0) \<Longrightarrow> trace w0 = trace w @ [EvCustomNew k]"
  by (auto simp add: emit_def split: prod.splits)

lemma Disconnect_no_Session:
  "Session c = None \<Longrightarrow> Disconnect e c w = (Returned None, c, w)"
  by (simp add: Disconnect_def update_Session_None)

lemma Disconnect_open_Session:
  "Session c = Some s \<Longrightarrow> Connection s = Some cn \<Longrightarrow>
   Disconnect e c w =
     (Returned (map_option Foreign (Close e (trace w) cn)), c\<lparr>Session := None\<rparr>,
      emit (EvClose cn) w)"
  by (simp add: Disconnect_def)

lemma Disconnect_Returned:
  assumes "Disconnect e c w = (Returned r, c1, w1)"
  shows "Session c1 = None \<and> ConnectionFactory c1 = ConnectionFactory c
       \<and> factory_heap w1 = factory_heap w
       \<and> (r \<noteq> None \<longrightarrow> (\<exists>cn. trace w1 = trace w @ [EvClose cn]))"
  using assms
  by (auto simp add: Disconnect_def emit_def split: option.splits)

text \<open>
  A call of any method on a client whose factory field is set leaves the field
  and the store of default factories as they are.
\<close>

lemma run_call_frame:
  assumes "ConnectionFactory c = Some f" and "run_call e x c w = (r, c1, w1)"
  shows "ConnectionFactory c1 = Some f \<and> factory_heap w1 = factory_heap w"
proof (cases x)
  case CallConnect
  with assms have "Connect_with e f c w = (r, c1, w1)"
    by (simp add: Connect_def default_factory_set)
  from Connect_with_frame [OF this] assms(1) show ?thesis by simp
next
  case CallDisconnect
  with assms show ?thesis
    by (auto simp add: Disconnect_def emit_def split: option.splits)
next
  case CallReconnect
  obtain r0 c0 w0 where d: "Disconnect e c w = (r0, c0, w0)"
    by (cases "Disconnect e c w")
  with assms(1) have fr: "ConnectionFactory c0 = Some f" "factory_heap w0 = factory_heap w"
    by (auto simp add: Disconnect_def emit_def split: option.splits)
  show ?thesis
  proof (cases "r0 = Returned None")
    case True
    with CallReconnect assms(2) d have "Connect e c0 w0 = (r, c1, w1)"
      by (simp add: Reconnect_def)
    with fr(1) have "Connect_with e f c0 w0 = (r, c1, w1)"
      by (simp add: Connect_def default_factory_set)
    from Connect_with_frame [OF this] fr show ?thesis by simp
  next
    case False
    with CallReconnect assms(2) d have "c1 = c0" "w1 = w0"
      by (auto simp add: Reconnect_def split: outcome.splits option.splits)
    with fr show ?thesis by simp
  qed
next
  case (CallSendMessage m)
  with assms show ?thesis
    by (auto simp add: SendMessage_def emit_def split: option.splits)
next
  case CallListen
  with assms show ?thesis
    by (auto simp add: Listen_def emit_def split: option.splits)
qed

lemma run_calls_frame:
  assumes "ConnectionFactory c = Some f" and "run_calls e xs c w = (c2, w2)"
  shows "ConnectionFactory c2 = Some f \<and> factory_heap w2 = factory_heap w"
  using assms
proof (induction xs arbitrary: c w)
  case Nil
  then show ?case by simp
next
  case (Cons x xs)
  obtain r c1 w1 where s: "run_call e x c w = (r, c1, w1)"
    by (cases "run_call e x c w")
  from run_call_frame [OF Cons.prems(1) s]
  have fr: "ConnectionFactory c1 = Some f" "factory_heap w1 = factory_heap w" by simp_all
  from Cons.prems(2) s have "run_calls e xs c1 w1 = (c2, w2)" by simp
  from Cons.IH [OF fr(1) this] fr(2) show ?case by simp
qed

subsection \<open>The default factory and the credential\<close>

text \<open>
  With no credential to send (no AuthInfo, or an empty token) \<open>New\<close> dials
  the address with the nil header and hands back what the dial answered.
\<close>

lemma New_without_credential:
  assumes "AuthInfo_f wcf = None \<or>
           (\<exists>p ai. AuthInfo_f wcf = Some p \<and> deref (auth_heap w) p = Some ai \<and> token ai = [])"
  shows "New e wcf w =
     (Returned (fst (Dial e (trace w) (ServerAddress_String (ServerAddress_f wcf)) None),
                map_option Foreign
                  (snd (Dial e (trace w) (ServerAddress_String (ServerAddress_f wcf)) None))),
      emit (EvDial (ServerAddress_String (ServerAddress_f wcf)) None) w)"
  using assms
  by (auto simp add: New_def New_header_def IAMToken_def Let_def split: prod.splits)

text \<open>
  With a credential to send, \<open>header.Add\<close> runs on the nil header: \<open>New\<close>
  panics, for every factory, world and environment, and nothing is dialled.
\<close>

lemma New_with_credential:
  assumes "AuthInfo_f wcf = Some p" and "deref (auth_heap w) p = Some ai" and "token ai \<noteq> []"
  shows "New e wcf w = (Panicked NilMapAssignment, w)"
  using assms by (simp add: New_def New_header_def Header_Add_def IAMToken_def)

lemma Connect_default_with_credential:
  assumes "ConnectionFactory c = None" and "AuthInfo c = Some p"
      and "deref (auth_heap w) p = Some ai" and "token ai \<noteq> []"
  shows "fst (Connect e c w) = Panicked NilMapAssignment"
  using assms
  by (simp add: Connect_def default_factory_def Let_def Connect_with_def deref_def
      New_def New_header_def Header_Add_def IAMToken_def)

text \<open>
  C1. The claim: with an AuthInfo that holds a non-empty credential, \<open>New\<close>
  puts the credential in an Authorization header, dials once and returns the
  connection or the transport error. The code, for the factory bound to the
  credential \<open>secret\<close>: the call ends in the panic of an assignment to a nil
  map, before the dial, so the trace of the world is as before.
\<close>

theorem New_panics_on_credential:
  "New fake_env token_factory token_world = (Panicked NilMapAssignment, token_world)"
  by (simp add: New_def New_header_def Header_Add_def IAMToken_def token_factory_def
      token_world_def deref_def NewIAMAuthInfo_def)

subsection \<open>Connect\<close>

text \<open>
  C2, as stated: after a Connect that returns an error the client holds no
  Session, whatever state it started in. A client that already holds a
  Session and whose factory fails with error 7 gets that error back and still
  holds the Session it had.
\<close>

theorem Connect_failure_counterexample:
  "Connect fake_env
     (plain_client\<lparr>ConnectionFactory := Some (Custom 1),
                   Session := Some (session_of (Some (WsConnection 0)))\<rparr>) empty_world
   = (Returned (Some (Foreign 7)),
      plain_client\<lparr>ConnectionFactory := Some (Custom 1),
                   Session := Some (session_of (Some (WsConnection 0)))\<rparr>,
      emit (EvCustomNew 1) empty_world)
   \<and> Session (plain_client\<lparr>ConnectionFactory := Some (Custom 1),
                   Session := Some (session_of (Some (WsConnection 0)))\<rparr>)
     = Some (session_of (Some (WsConnection 0)))"
  by (simp add: Connect_def default_factory_def Connect_with_def fake_env_def emit_def)

text \<open>
  C2, amended: when the factory's \<open>New\<close> returns an error, or returns none
  and the wrapping step returns an error, Connect returns that very error and
  the Session field is what it was before the call (so a client without a
  Session still has none, a client that held one still holds it, and no
  partial Session is stored). Connect returns no error but these.
\<close>

theorem Connect_failure_keeps_Session:
  assumes "default_factory c w = (f, c1, w1)"
      and "WSConnectionFactory_New e f w1 = (Returned (conn, nerr), w2)"
      and "NewConnection e (trace w2) conn (ConnectionOptions c) = (connection, werr)"
  shows "Session c1 = Session c
       \<and> (\<forall>err. nerr = Some err \<longrightarrow> Connect e c w = (Returned (Some err), c1, w2))
       \<and> (\<forall>k. nerr = None \<and> werr = Some k \<longrightarrow>
             Connect e c w =
               (Returned (Some (Foreign k)), c1,
                emit (EvNewConnection conn (ConnectionOptions c)) w2))
       \<and> (\<forall>err c' w'. Connect e c w = (Returned (Some err), c', w') \<longrightarrow>
             Session c' = Session c
             \<and> (nerr = Some err \<or> (nerr = None \<and> (\<exists>k. werr = Some k \<and> err = Foreign k))))"
proof -
  from default_factory_frame [OF assms(1)]
  have fr: "Session c1 = Session c" "ConnectionOptions c1 = ConnectionOptions c" by simp_all
  have co: "Connect e c w = Connect_with e f c1 w1"
    using assms(1) by (simp add: Connect_def)
  have a: "\<forall>err. nerr = Some err \<longrightarrow> Connect e c w = (Returned (Some err), c1, w2)"
    using assms(2) co by (simp add: Connect_with_New_error)
  have b: "\<forall>k. nerr = None \<and> werr = Some k \<longrightarrow>
             Connect e c w =
               (Returned (Some (Foreign k)), c1,
                emit (EvNewConnection conn (ConnectionOptions c)) w2)"
    using assms(2,3) co fr(2) by (auto simp add: Connect_with_wrap_error)
  have d: "\<forall>err c' w'. Connect e c w = (Returned (Some err), c', w') \<longrightarrow>
             Session c' = Session c
             \<and> (nerr = Some err \<or> (nerr = None \<and> (\<exists>k. werr = Some k \<and> err = Foreign k)))"
  proof (intro allI impI)
    fix err c' w' assume "Connect e c w = (Returned (Some err), c', w')"
    with co have cw: "Connect_with e f c1 w1 = (Returned (Some err), c', w')" by simp
    from Connect_with_error [OF cw] assms(2,3) fr
    show "Session c' = Session c
       \<and> (nerr = Some err \<or> (nerr = None \<and> (\<exists>k. werr = Some k \<and> err = Foreign k)))"
      by auto
  qed
  from fr(1) a b d show ?thesis by (intro conjI)
qed

theorem Connect_failure_keeps_Session_witness:
  "Connect fake_env
     (plain_client\<lparr>ConnectionFactory := Some (Custom 1),
                   Session := Some (session_of (Some (WsConnection 0)))\<rparr>) empty_world
     = (Returned (Some (Foreign 7)),
        plain_client\<lparr>ConnectionFactory := Some (Custom 1),
                      Session := Some (session_of (Some (WsConnection 0)))\<rparr>,
        emit (EvCustomNew 1) empty_world)
   \<and> Connect fake_env
       (plain_client\<lparr>ConnectionFactory := Some (Custom 0),
                     ConnectionOptions := WsConnectionOptions 1\<rparr>) empty_world
     = (Returned (Some (Foreign 8)),
        plain_client\<lparr>ConnectionFactory := Some (Custom 0),
                      ConnectionOptions := WsConnectionOptions 1\<rparr>,
        emit (EvNewConnection (Some (ExtConn 1)) (WsConnectionOptions 1))
          (emit (EvCustomNew 0) empty_world))"
proof -
  let ?c = "plain_client\<lparr>ConnectionFactory := Some (Custom 1),
                   Session := Some (session_of (Some (WsConnection 0)))\<rparr>"
  let ?d = "plain_client\<lparr>ConnectionFactory := Some (Custom 0),
                     ConnectionOptions := WsConnectionOptions 1\<rparr>"
  have c1: "default_factory ?c empty_world = (Custom 1, ?c, empty_world)"
    by (simp add: default_factory_def)
  have c2: "WSConnectionFactory_New fake_env (Custom 1) empty_world
     = (Returned (None, Some (Foreign 7)), emit (EvCustomNew 1) empty_world)"
    by (simp add: fake_env_def)
  have c3: "NewConnection fake_env (trace (emit (EvCustomNew 1) empty_world)) None
      (ConnectionOptions ?c) = (Some (WsConnection 0), None)"
    by (simp add: fake_env_def plain_client_def)
  have d1: "default_factory ?d empty_world = (Custom 0, ?d, empty_world)"
    by (simp add: default_factory_def)
  have d2: "WSConnectionFactory_New fake_env (Custom 0) empty_world
     = (Returned (Some (ExtConn 1), None), emit (EvCustomNew 0) empty_world)"
    by (simp add: fake_env_def)
  have d3: "NewConnection fake_env (trace (emit (EvCustomNew 0) empty_world)) (Some (ExtConn 1))
      (ConnectionOptions ?d) = (None, Some 8)"
    by (simp add: fake_env_def)
  from Connect_failure_keeps_Session [OF c1 c2 c3]
  have a: "Connect fake_env ?c empty_world
     = (Returned (Some (Foreign 7)), ?c, emit (EvCustomNew 1) empty_world)"
    by blast
  from Connect_failure_keeps_Session [OF d1 d2 d3]
  have b: "Connect fake_env ?d empty_world
     = (Returned (Some (Foreign 8)), ?d,
        emit (EvNewConnection (Some (ExtConn 1)) (ConnectionOptions ?d))
          (emit (EvCustomNew 0) empty_world))"
    by blast
  from a b show ?thesis by simp
qed

text \<open>
  C6. With the factory field set, Connect calls \<open>New\<close> on the very factory
  the caller supplied (for the caller's implementation \<open>k\<close> the trace goes on
  with the call \<open>EvCustomNew k\<close>, and an error of that call is the error of
  Connect), goes on as that call answered, and leaves the field and the store
  of default factories untouched. Only with the field nil does it allocate a
  default factory, one, at a fresh address, holding the client's own
  ServerAddress and the client's AuthInfo pointer; it sets the field to it and
  calls \<open>New\<close> of that factory. This happens inside Connect, whatever Connect
  then returns.
\<close>

theorem Connect_factory_choice:
  assumes "Connect e c w = (r, c', w')"
  shows "(\<forall>f. ConnectionFactory c = Some f \<longrightarrow>
            ConnectionFactory c' = Some f \<and> factory_heap w' = factory_heap w
            \<and> (case WSConnectionFactory_New e f w of (r0, w0) \<Rightarrow>
                  (\<exists>ext. trace w' = trace w0 @ ext)
                  \<and> (case r0 of
                       Panicked p \<Rightarrow> r = Panicked p \<and> w' = w0
                     | Returned (conn, nerr) \<Rightarrow>
                         (case nerr of
                            Some err \<Rightarrow> r = Returned (Some err) \<and> w' = w0
                          | None \<Rightarrow> w' = emit (EvNewConnection conn (ConnectionOptions c)) w0)))
            \<and> (\<forall>k. f = Custom k \<longrightarrow>
                  (\<exists>ext. trace w' = trace w @ EvCustomNew k # ext)
                  \<and> (\<forall>err. snd (custom_New e (trace w) k) = Some err \<longrightarrow>
                        r = Returned (Some (Foreign err)))))
       \<and> (ConnectionFactory c = None \<longrightarrow>
            ConnectionFactory c' = Some (DefaultRef (length (factory_heap w)))
            \<and> factory_heap w' = factory_heap w @
                 [\<lparr>ServerAddress_f = ServerAddress c, AuthInfo_f = AuthInfo c\<rparr>]
            \<and> deref (factory_heap w') (length (factory_heap w))
                 = Some \<lparr>ServerAddress_f = ServerAddress c, AuthInfo_f = AuthInfo c\<rparr>
            \<and> (case New e \<lparr>ServerAddress_f = ServerAddress c, AuthInfo_f = AuthInfo c\<rparr>
                       (w\<lparr>factory_heap := factory_heap w @
                            [\<lparr>ServerAddress_f = ServerAddress c, AuthInfo_f = AuthInfo c\<rparr>]\<rparr>)
                of (r0, w0) \<Rightarrow>
                  (\<exists>ext. trace w' = trace w0 @ ext)
                  \<and> (case r0 of
                       Panicked p \<Rightarrow> r = Panicked p \<and> w' = w0
                     | Returned (conn, nerr) \<Rightarrow>
                         (case nerr of
                            Some err \<Rightarrow> r = Returned (Some err) \<and> w' = w0
                          | None \<Rightarrow> w' = emit (EvNewConnection conn (ConnectionOptions c)) w0))))"
proof (intro conjI allI impI)
  fix f assume f: "ConnectionFactory c = Some f"
  with assms have cw: "Connect_with e f c w = (r, c', w')"
    by (simp add: Connect_def default_factory_set)
  from Connect_with_frame [OF cw] f
  show "ConnectionFactory c' = Some f" "factory_heap w' = factory_heap w" by simp_all
  obtain r0 w0 where n: "WSConnectionFactory_New e f w = (r0, w0)"
    by (cases "WSConnectionFactory_New e f w")
  from Connect_with_calls_New [OF cw n] n
  show "case WSConnectionFactory_New e f w of (r0, w0) \<Rightarrow>
          (\<exists>ext. trace w' = trace w0 @ ext)
          \<and> (case r0 of
               Panicked p \<Rightarrow> r = Panicked p \<and> w' = w0
             | Returned (conn, nerr) \<Rightarrow>
                 (case nerr of
                    Some err \<Rightarrow> r = Returned (Some err) \<and> w' = w0
                  | None \<Rightarrow> w' = emit (EvNewConnection conn (ConnectionOptions c)) w0))"
    by simp
  {
    fix k assume k: "f = Custom k"
    from Connect_with_calls_New [OF cw n]
    obtain ext where ext: "trace w' = trace w0 @ ext" by blast
    from n k have "trace w0 = trace w @ [EvCustomNew k]" by (simp add: Custom_New_trace)
    with ext show "\<exists>ext. trace w' = trace w @ EvCustomNew k # ext" by simp
    {
      fix err assume "snd (custom_New e (trace w) k) = Some err"
      then have "WSConnectionFactory_New e (Custom k) w
          = (Returned (fst (custom_New e (trace w) k), Some (Foreign err)),
             emit (EvCustomNew k) w)"
        by (simp add: case_prod_beta)
      from Connect_with_New_error [OF this] cw k
      show "r = Returned (Some (Foreign err))" by simp
    }
  }
next
  assume n: "ConnectionFactory c = None"
  let ?wcf = "\<lparr>ServerAddress_f = ServerAddress c, AuthInfo_f = AuthInfo c\<rparr>"
  let ?f = "DefaultRef (length (factory_heap w))"
  let ?c1 = "c\<lparr>ConnectionFactory := Some ?f\<rparr>"
  let ?w1 = "w\<lparr>factory_heap := factory_heap w @ [?wcf]\<rparr>"
  from assms n have cw: "Connect_with e ?f ?c1 ?w1 = (r, c', w')"
    by (simp add: Connect_def default_factory_unset)
  from Connect_with_frame [OF cw]
  show "ConnectionFactory c' = Some ?f"
    and h: "factory_heap w' = factory_heap w @ [?wcf]"
    by simp_all
  from h show "deref (factory_heap w') (length (factory_heap w)) = Some ?wcf"
    by (simp add: deref_def)
  have call: "WSConnectionFactory_New e ?f ?w1 = New e ?wcf ?w1"
    by (simp add: deref_def)
  obtain r0 w0 where nw: "New e ?wcf ?w1 = (r0, w0)"
    by (cases "New e ?wcf ?w1")
  with call have nf: "WSConnectionFactory_New e ?f ?w1 = (r0, w0)" by simp
  have co: "ConnectionOptions ?c1 = ConnectionOptions c" by simp
  from Connect_with_calls_New [OF cw nf, unfolded co] nw
  show "case New e ?wcf ?w1 of (r0, w0) \<Rightarrow>
          (\<exists>ext. trace w' = trace w0 @ ext)
          \<and> (case r0 of
               Panicked p \<Rightarrow> r = Panicked p \<and> w' = w0
             | Returned (conn, nerr) \<Rightarrow>
                 (case nerr of
                    Some err \<Rightarrow> r = Returned (Some err) \<and> w' = w0
                  | None \<Rightarrow> w' = emit (EvNewConnection conn (ConnectionOptions c)) w0))"
    by simp
qed

theorem Connect_factory_choice_witness:
  "Connect fake_env (plain_client\<lparr>ConnectionFactory := Some (Custom 1)\<rparr>) empty_world
     = (Returned (Some (Foreign 7)), plain_client\<lparr>ConnectionFactory := Some (Custom 1)\<rparr>,
        emit (EvCustomNew 1) empty_world)
   \<and> (\<exists>ext. trace (emit (EvCustomNew 1) empty_world)
          = trace empty_world @ EvCustomNew 1 # ext)
   \<and> ConnectionFactory (fst (snd (Connect fake_env plain_client empty_world)))
       = Some (DefaultRef 0)
   \<and> factory_heap (snd (snd (Connect fake_env plain_client empty_world)))
       = [\<lparr>ServerAddress_f = endpoint, AuthInfo_f = None\<rparr>]
   \<and> (\<exists>ext. trace (snd (snd (Connect fake_env plain_client empty_world)))
          = EvDial ''ws://localhost:8083'' None # ext)"
proof -
  let ?c = "plain_client\<lparr>ConnectionFactory := Some (Custom 1)\<rparr>"
  have h1: "Connect fake_env ?c empty_world
     = (Returned (Some (Foreign 7)), ?c, emit (EvCustomNew 1) empty_world)"
    by (simp add: Connect_def default_factory_def Connect_with_def fake_env_def)
  have f1: "ConnectionFactory ?c = Some (Custom 1)" by simp
  from Connect_factory_choice [OF h1] f1
  have a: "\<exists>ext. trace (emit (EvCustomNew 1) empty_world)
          = trace empty_world @ EvCustomNew 1 # ext"
    by blast
  have h2: "Connect fake_env plain_client empty_world
     = (fst (Connect fake_env plain_client empty_world),
        fst (snd (Connect fake_env plain_client empty_world)),
        snd (snd (Connect fake_env plain_client empty_world)))"
    by simp
  have n: "ConnectionFactory plain_client = None" "ServerAddress plain_client = endpoint"
    "AuthInfo plain_client = None" "factory_heap empty_world = []"
    by (simp_all add: plain_client_def empty_world_def)
  have nw: "New fake_env \<lparr>ServerAddress_f = endpoint, AuthInfo_f = None\<rparr>
       (empty_world\<lparr>factory_heap := [\<lparr>ServerAddress_f = endpoint, AuthInfo_f = None\<rparr>]\<rparr>)
     = (Returned (Some (ExtConn 0), None),
        emit (EvDial ''ws://localhost:8083'' None)
          (empty_world\<lparr>factory_heap := [\<lparr>ServerAddress_f = endpoint, AuthInfo_f = None\<rparr>]\<rparr>))"
    by (simp add: New_def New_header_def fake_env_def endpoint_def)
  note r = Connect_factory_choice [OF h2, THEN conjunct2, rule_format, OF n(1)]
  from r n have b: "ConnectionFactory (fst (snd (Connect fake_env plain_client empty_world)))
       = Some (DefaultRef 0)"
    and c: "factory_heap (snd (snd (Connect fake_env plain_client empty_world)))
       = [\<lparr>ServerAddress_f = endpoint, AuthInfo_f = None\<rparr>]"
    by simp_all
  from r n nw have d: "\<exists>ext. trace (snd (snd (Connect fake_env plain_client empty_world)))
          = EvDial ''ws://localhost:8083'' None # ext"
    by (auto simp add: emit_def empty_world_def)
  from h1 a b c d show ?thesis by (intro conjI)
qed

text \<open>
  C7. When the factory's \<open>New\<close> returns no error and the wrapping step
  returns a Connection and no error, Connect returns nil and the Session
  field holds one Session made of the client's ServerAddress and that
  Connection; a SendMessage or a Listen right after passes its guard and
  reaches the Connection: its outcome is the one of \<open>Encode\<close>, or of
  \<open>Listen\<close>, on that Connection.
\<close>

theorem Connect_success:
  assumes "default_factory c w = (f, c1, w1)"
      and "WSConnectionFactory_New e f w1 = (Returned (conn, None), w2)"
      and "NewConnection e (trace w2) conn (ConnectionOptions c) = (Some cn, None)"
      and "c' = c1\<lparr>Session := Some \<lparr>ServerAddress_s = ServerAddress c, Connection = Some cn\<rparr>\<rparr>"
      and "w' = emit (EvNewConnection conn (ConnectionOptions c)) w2"
  shows "Connect e c w = (Returned None, c', w')
       \<and> Session c' = Some \<lparr>ServerAddress_s = ServerAddress c, Connection = Some cn\<rparr>
       \<and> SendMessage e m c' w'
           = (map_outcome (map_option Foreign) (Encode e (trace w') (Some cn) m), c',
              emit (EvEncode (Some cn) m) w')
       \<and> Listen e c' w'
           = (Returned (map_option Foreign (conn_Listen e (trace w') cn)), c',
              emit (EvListen cn) w')"
proof -
  from default_factory_frame [OF assms(1)]
  have fr: "ServerAddress c1 = ServerAddress c" "ConnectionOptions c1 = ConnectionOptions c"
    by simp_all
  have "Connect e c w = (Returned None, c', w')"
    using assms fr by (simp add: Connect_def Connect_with_def)
  moreover have s: "Session c' = Some \<lparr>ServerAddress_s = ServerAddress c, Connection = Some cn\<rparr>"
    using assms(4) by simp
  moreover from s have "SendMessage e m c' w'
           = (map_outcome (map_option Foreign) (Encode e (trace w') (Some cn) m), c',
              emit (EvEncode (Some cn) m) w')"
    by (simp add: SendMessage_def)
  moreover from s have "Listen e c' w'
           = (Returned (map_option Foreign (conn_Listen e (trace w') cn)), c',
              emit (EvListen cn) w')"
    by (simp add: Listen_def)
  ultimately show ?thesis by simp
qed

theorem Connect_success_witness:
  "Connect fake_env (plain_client\<lparr>ConnectionFactory := Some (Custom 0)\<rparr>) empty_world
     = (Returned None,
        plain_client\<lparr>ConnectionFactory := Some (Custom 0),
                      Session := Some (session_of (Some (WsConnection 0)))\<rparr>,
        emit (EvNewConnection (Some (ExtConn 1)) (WsConnectionOptions 0))
          (emit (EvCustomNew 0) empty_world))
   \<and> fst (SendMessage fake_env (Encodable 0)
        (plain_client\<lparr>ConnectionFactory := Some (Custom 0),
                      Session := Some (session_of (Some (WsConnection 0)))\<rparr>)
        (emit (EvNewConnection (Some (ExtConn 1)) (WsConnectionOptions 0))
          (emit (EvCustomNew 0) empty_world))) = Returned None
   \<and> fst (Listen fake_env
        (plain_client\<lparr>ConnectionFactory := Some (Custom 0),
                      Session := Some (session_of (Some (WsConnection 0)))\<rparr>)
        (emit (EvNewConnection (Some (ExtConn 1)) (WsConnectionOptions 0))
          (emit (EvCustomNew 0) empty_world))) = Returned None"
proof -
  let ?c = "plain_client\<lparr>ConnectionFactory := Some (Custom 0)\<rparr>"
  let ?w2 = "emit (EvCustomNew 0) empty_world"
  have h1: "default_factory ?c empty_world = (Custom 0, ?c, empty_world)"
    by (simp add: default_factory_def)
  have h2: "WSConnectionFactory_New fake_env (Custom 0) empty_world
     = (Returned (Some (ExtConn 1), None), ?w2)"
    by (simp add: fake_env_def)
  have h3: "NewConnection fake_env (trace ?w2) (Some (ExtConn 1)) (ConnectionOptions ?c)
     = (Some (WsConnection 0), None)"
    by (simp add: fake_env_def plain_client_def)
  have h4: "plain_client\<lparr>ConnectionFactory := Some (Custom 0),
                      Session := Some (session_of (Some (WsConnection 0)))\<rparr>
     = ?c\<lparr>Session := Some \<lparr>ServerAddress_s = ServerAddress ?c,
                             Connection = Some (WsConnection 0)\<rparr>\<rparr>"
    by (simp add: session_of_def plain_client_def)
  have h5: "emit (EvNewConnection (Some (ExtConn 1)) (WsConnectionOptions 0)) ?w2
     = emit (EvNewConnection (Some (ExtConn 1)) (ConnectionOptions ?c)) ?w2"
    by (simp add: plain_client_def)
  have e: "\<And>tr cn m. Encode fake_env tr (Some cn) m = Returned None"
    "\<And>tr cn. conn_Listen fake_env tr cn = None"
    by (simp_all add: fake_env_def)
  note r = Connect_success [OF h1 h2 h3 h4 h5, of "Encodable 0"]
  from r have a: "Connect fake_env ?c empty_world
     = (Returned None,
        plain_client\<lparr>ConnectionFactory := Some (Custom 0),
                      Session := Some (session_of (Some (WsConnection 0)))\<rparr>,
        emit (EvNewConnection (Some (ExtConn 1)) (WsConnectionOptions 0)) ?w2)"
    by (rule conjunct1)
  from r [THEN conjunct2, THEN conjunct2, THEN conjunct1]
  have b: "fst (SendMessage fake_env (Encodable 0)
        (plain_client\<lparr>ConnectionFactory := Some (Custom 0),
                      Session := Some (session_of (Some (WsConnection 0)))\<rparr>)
        (emit (EvNewConnection (Some (ExtConn 1)) (WsConnectionOptions 0)) ?w2)) = Returned None"
    by (simp add: e)
  from r [THEN conjunct2, THEN conjunct2, THEN conjunct2]
  have c: "fst (Listen fake_env
        (plain_client\<lparr>ConnectionFactory := Some (Custom 0),
                      Session := Some (session_of (Some (WsConnection 0)))\<rparr>)
        (emit (EvNewConnection (Some (ExtConn 1)) (WsConnectionOptions 0)) ?w2)) = Returned None"
    by (simp add: e)
  from a b c show ?thesis by (intro conjI)
qed

text \<open>
  C10. A Connect on a client whose factory field is nil sets the field to the
  default factory it allocates, whatever the Connect returns; after any
  further calls of the client's methods the field still holds that pointer,
  the store of default factories has not grown, the object behind the pointer
  is the one allocated first, and a Connect calls \<open>New\<close> on it.
\<close>

theorem default_factory_kept:
  assumes "ConnectionFactory c = None"
      and "Connect e c w = (r, c1, w1)"
      and "run_calls e xs c1 w1 = (c2, w2)"
  shows "ConnectionFactory c1 = Some (DefaultRef (length (factory_heap w)))
       \<and> ConnectionFactory c2 = ConnectionFactory c1
       \<and> factory_heap w2 = factory_heap w1
       \<and> Connect e c2 w2 = Connect_with e (DefaultRef (length (factory_heap w))) c2 w2
       \<and> deref (factory_heap w2) (length (factory_heap w))
            = Some \<lparr>ServerAddress_f = ServerAddress c, AuthInfo_f = AuthInfo c\<rparr>"
proof -
  let ?f = "DefaultRef (length (factory_heap w))"
  let ?c0 = "c\<lparr>ConnectionFactory := Some ?f\<rparr>"
  let ?w0 = "w\<lparr>factory_heap := factory_heap w @
           [\<lparr>ServerAddress_f = ServerAddress c, AuthInfo_f = AuthInfo c\<rparr>]\<rparr>"
  from assms(1,2) have "Connect_with e ?f ?c0 ?w0 = (r, c1, w1)"
    by (simp add: Connect_def default_factory_unset)
  from Connect_with_frame [OF this]
  have c1: "ConnectionFactory c1 = Some ?f"
    and w1: "factory_heap w1 = factory_heap w @
           [\<lparr>ServerAddress_f = ServerAddress c, AuthInfo_f = AuthInfo c\<rparr>]"
    by simp_all
  from run_calls_frame [OF c1 assms(3)]
  have c2: "ConnectionFactory c2 = Some ?f" and w2: "factory_heap w2 = factory_heap w1"
    by simp_all
  from c2 have "Connect e c2 w2 = Connect_with e ?f c2 w2"
    by (simp add: Connect_def default_factory_set)
  with c1 c2 w1 w2 show ?thesis by (simp add: deref_def)
qed

theorem default_factory_kept_witness:
  "ConnectionFactory (plain_client\<lparr>ConnectionOptions := WsConnectionOptions 1\<rparr>) = None
   \<and> fst (Connect fake_env (plain_client\<lparr>ConnectionOptions := WsConnectionOptions 1\<rparr>) empty_world)
       = Returned (Some (Foreign 8))
   \<and> ConnectionFactory (fst (run_calls fake_env [CallConnect, CallReconnect]
        (fst (snd (Connect fake_env (plain_client\<lparr>ConnectionOptions := WsConnectionOptions 1\<rparr>)
                     empty_world)))
        (snd (snd (Connect fake_env (plain_client\<lparr>ConnectionOptions := WsConnectionOptions 1\<rparr>)
                     empty_world)))))
       = Some (DefaultRef 0)
   \<and> length (factory_heap (snd (run_calls fake_env [CallConnect, CallReconnect]
        (fst (snd (Connect fake_env (plain_client\<lparr>ConnectionOptions := WsConnectionOptions 1\<rparr>)
                     empty_world)))
        (snd (snd (Connect fake_env (plain_client\<lparr>ConnectionOptions := WsConnectionOptions 1\<rparr>)
                     empty_world)))))) = 1"
proof -
  let ?c = "plain_client\<lparr>ConnectionOptions := WsConnectionOptions 1\<rparr>"
  let ?r = "Connect fake_env ?c empty_world"
  let ?s = "run_calls fake_env [CallConnect, CallReconnect] (fst (snd ?r)) (snd (snd ?r))"
  have h1: "ConnectionFactory ?c = None" by (simp add: plain_client_def)
  have h2: "?r = (fst ?r, fst (snd ?r), snd (snd ?r))" by simp
  have h3: "?s = (fst ?s, snd ?s)" by simp
  have v: "fst ?r = Returned (Some (Foreign 8))"
    by (simp add: Connect_def default_factory_def Connect_with_def fake_env_def Let_def
        plain_client_def deref_def New_def New_header_def empty_world_def)
  have l: "factory_heap empty_world = []" by (simp add: empty_world_def)
  have k: "length (factory_heap (snd (snd ?r))) = 1"
    by (simp add: Connect_def default_factory_def Connect_with_def fake_env_def Let_def
        plain_client_def deref_def New_def New_header_def empty_world_def emit_def)
  from default_factory_kept [OF h1 h2 h3] h1 v l k show ?thesis
    by (simp del: run_calls.simps)
qed

subsection \<open>Disconnect and Reconnect\<close>

text \<open>
  C3, as stated: Disconnect leaves every client without a Session. A client
  whose Session holds a nil Connection is a value of the client's type (the
  guard of Listen tests for it); on it the call of \<open>Close\<close> panics and the
  Session is still there.
\<close>

theorem Disconnect_nil_Connection_counterexample:
  "Disconnect fake_env (plain_client\<lparr>Session := Some (session_of None)\<rparr>) empty_world
     = (Panicked InvalidMemoryAddress, plain_client\<lparr>Session := Some (session_of None)\<rparr>,
        empty_world)
   \<and> Session (plain_client\<lparr>Session := Some (session_of None)\<rparr>) \<noteq> None"
  by (simp add: Disconnect_def session_of_def)

text \<open>
  C3, amended: for every client whose Session, when there is one, holds a
  Connection, Disconnect leaves the client with no Session. With no Session it
  returns nil and changes nothing; with a Session it calls \<open>Close\<close> on the
  Session's Connection once, clears the Session whatever \<open>Close\<close> answered
  and returns that answer; a second Disconnect right after returns nil and
  changes nothing.
\<close>

theorem Disconnect_clears_Session:
  assumes "\<forall>s. Session c = Some s \<longrightarrow> Connection s \<noteq> None"
      and "Disconnect e c w = (r, c1, w1)"
  shows "Session c1 = None
       \<and> (Session c = None \<longrightarrow> r = Returned None \<and> c1 = c \<and> w1 = w)
       \<and> (\<forall>s cn. Session c = Some s \<and> Connection s = Some cn \<longrightarrow>
             r = Returned (map_option Foreign (Close e (trace w) cn))
             \<and> c1 = c\<lparr>Session := None\<rparr> \<and> w1 = emit (EvClose cn) w)
       \<and> Disconnect e c1 w1 = (Returned None, c1, w1)"
proof (cases "Session c")
  case None
  with assms(2) have eq: "r = Returned None" "c1 = c" "w1 = w"
    by (simp_all add: Disconnect_no_Session)
  with None show ?thesis by (simp add: Disconnect_no_Session)
next
  case (Some s)
  with assms(1) obtain cn where cn: "Connection s = Some cn" by auto
  from assms(2) Some cn
  have eq: "r = Returned (map_option Foreign (Close e (trace w) cn))"
    "c1 = c\<lparr>Session := None\<rparr>" "w1 = emit (EvClose cn) w"
    by (simp_all add: Disconnect_open_Session)
  then have "Session c1 = None" by simp
  with eq Some cn show ?thesis by (simp add: Disconnect_no_Session)
qed

theorem Disconnect_clears_Session_witness:
  "Disconnect fake_env (plain_client\<lparr>Session := Some (session_of (Some (WsConnection 1)))\<rparr>)
      empty_world
     = (Returned (Some (Foreign 9)), plain_client, emit (EvClose (WsConnection 1)) empty_world)
   \<and> Session plain_client = None
   \<and> Disconnect fake_env plain_client (emit (EvClose (WsConnection 1)) empty_world)
     = (Returned None, plain_client, emit (EvClose (WsConnection 1)) empty_world)
   \<and> Disconnect fake_env plain_client empty_world = (Returned None, plain_client, empty_world)"
proof -
  let ?c = "plain_client\<lparr>Session := Some (session_of (Some (WsConnection 1)))\<rparr>"
  have h1: "\<forall>s. Session ?c = Some s \<longrightarrow> Connection s \<noteq> None"
    by (simp add: session_of_def)
  have h2: "Disconnect fake_env ?c empty_world
     = (Returned (Some (Foreign 9)), plain_client, emit (EvClose (WsConnection 1)) empty_world)"
    by (simp add: Disconnect_def session_of_def fake_env_def plain_client_def)
  have n: "Session plain_client = None" by (simp add: plain_client_def)
  then have h3: "\<forall>s. Session plain_client = Some s \<longrightarrow> Connection s \<noteq> None" by simp
  have h4: "Disconnect fake_env plain_client empty_world
     = (fst (Disconnect fake_env plain_client empty_world),
        fst (snd (Disconnect fake_env plain_client empty_world)),
        snd (snd (Disconnect fake_env plain_client empty_world)))"
    by simp
  from Disconnect_clears_Session [OF h3 h4] n
  have "fst (Disconnect fake_env plain_client empty_world) = Returned None"
    "fst (snd (Disconnect fake_env plain_client empty_world)) = plain_client"
    "snd (snd (Disconnect fake_env plain_client empty_world)) = empty_world"
    by simp_all
  with h4 have "Disconnect fake_env plain_client empty_world
     = (Returned None, plain_client, empty_world)"
    by simp
  with Disconnect_clears_Session [OF h1 h2] h2 show ?thesis by simp
qed

text \<open>
  C4. Reconnect runs Disconnect first. When Disconnect returns an error,
  Reconnect returns that error with the client and the world as Disconnect
  left them: no Session, the factory field and the store of factories
  untouched, and the close as the only call made, so no Connect was tried.
  When Disconnect returns nil, Reconnect is Connect on the state Disconnect
  left. A panic of Disconnect ends Reconnect as well.
\<close>

theorem Reconnect_composes:
  assumes "Disconnect e c w = (r, c1, w1)"
  shows "(\<forall>err. r = Returned (Some err) \<longrightarrow>
            Reconnect e c w = (Returned (Some err), c1, w1)
            \<and> Session c1 = None
            \<and> ConnectionFactory c1 = ConnectionFactory c
            \<and> factory_heap w1 = factory_heap w
            \<and> (\<exists>cn. trace w1 = trace w @ [EvClose cn]))
       \<and> (\<forall>p. r = Panicked p \<longrightarrow> Reconnect e c w = (Panicked p, c1, w1))
       \<and> (r = Returned None \<longrightarrow> Reconnect e c w = Connect e c1 w1)"
proof (intro conjI allI impI)
  fix err assume r: "r = Returned (Some err)"
  with assms show "Reconnect e c w = (Returned (Some err), c1, w1)"
    by (simp add: Reconnect_def)
  from assms r have d: "Disconnect e c w = (Returned (Some err), c1, w1)" by simp
  from Disconnect_Returned [OF d]
  show "Session c1 = None" "ConnectionFactory c1 = ConnectionFactory c"
    "factory_heap w1 = factory_heap w" "\<exists>cn. trace w1 = trace w @ [EvClose cn]"
    by simp_all
next
  fix p assume "r = Panicked p"
  with assms show "Reconnect e c w = (Panicked p, c1, w1)"
    by (simp add: Reconnect_def)
next
  assume "r = Returned None"
  with assms show "Reconnect e c w = Connect e c1 w1"
    by (simp add: Reconnect_def)
qed

theorem Reconnect_composes_witness:
  "Reconnect fake_env (plain_client\<lparr>Session := Some (session_of (Some (WsConnection 1)))\<rparr>)
      empty_world
     = (Returned (Some (Foreign 9)), plain_client, emit (EvClose (WsConnection 1)) empty_world)
   \<and> Reconnect fake_env (plain_client\<lparr>Session := Some (session_of (Some (WsConnection 0)))\<rparr>)
      empty_world
     = Connect fake_env plain_client (emit (EvClose (WsConnection 0)) empty_world)
   \<and> Reconnect fake_env (plain_client\<lparr>Session := Some (session_of None)\<rparr>) empty_world
     = (Panicked InvalidMemoryAddress, plain_client\<lparr>Session := Some (session_of None)\<rparr>,
        empty_world)"
proof -
  have h1: "Disconnect fake_env
      (plain_client\<lparr>Session := Some (session_of (Some (WsConnection 1)))\<rparr>) empty_world
     = (Returned (Some (Foreign 9)), plain_client, emit (EvClose (WsConnection 1)) empty_world)"
    by (simp add: Disconnect_def session_of_def fake_env_def plain_client_def)
  have h2: "Disconnect fake_env
      (plain_client\<lparr>Session := Some (session_of (Some (WsConnection 0)))\<rparr>) empty_world
     = (Returned None, plain_client, emit (EvClose (WsConnection 0)) empty_world)"
    by (simp add: Disconnect_def session_of_def fake_env_def plain_client_def)
  have h3: "Disconnect fake_env (plain_client\<lparr>Session := Some (session_of None)\<rparr>) empty_world
     = (Panicked InvalidMemoryAddress, plain_client\<lparr>Session := Some (session_of None)\<rparr>,
        empty_world)"
    by (simp add: Disconnect_def session_of_def)
  from Reconnect_composes [OF h1] Reconnect_composes [OF h2] Reconnect_composes [OF h3]
  show ?thesis by simp
qed

subsection \<open>SendMessage and Listen\<close>

text \<open>
  C5. On a client with no Session, SendMessage and Listen both return the
  error made by \<open>errors.New("No active session")\<close>, which is not an error of
  any collaborator, and the client and the world (its trace of calls
  included) are as before.
\<close>

theorem no_Session_SendMessage_Listen:
  assumes "Session c = None"
  shows "SendMessage e m c w = (Returned (Some (errors_New ''No active session'')), c, w)
       \<and> Listen e c w = (Returned (Some (errors_New ''No active session'')), c, w)"
  using assms by (simp add: SendMessage_def Listen_def)

theorem no_Session_SendMessage_Listen_witness:
  "Session plain_client = None
   \<and> SendMessage fake_env (Encodable 0) plain_client empty_world
       = (Returned (Some (errors_New ''No active session'')), plain_client, empty_world)
   \<and> Listen fake_env plain_client empty_world
       = (Returned (Some (errors_New ''No active session'')), plain_client, empty_world)"
proof -
  have h: "Session plain_client = None" by (simp add: plain_client_def)
  show ?thesis
    using h no_Session_SendMessage_Listen [OF h, of fake_env "Encodable 0" empty_world]
    by simp
qed

text \<open>
  C9. On a client that holds a Session whose Connection is nil, SendMessage
  passes its guard and goes on to encode: it hands the nil Connection and the
  message to \<open>msgp.Encode\<close>, and it ends as that call ends, with its panic
  when it panics and with its answer when it returns, which is never the
  no-active-session error of this file. Listen, in the same state, returns
  the no-active-session error and calls nothing.
\<close>

theorem SendMessage_ignores_nil_Connection:
  assumes "Session c = Some s" and "Connection s = None"
  shows "SendMessage e m c w
           = (map_outcome (map_option Foreign) (Encode e (trace w) None m), c,
              emit (EvEncode None m) w)
       \<and> (\<forall>p. Encode e (trace w) None m = Panicked p \<longrightarrow>
             SendMessage e m c w = (Panicked p, c, emit (EvEncode None m) w))
       \<and> trace (snd (snd (SendMessage e m c w))) = trace w @ [EvEncode None m]
       \<and> fst (SendMessage e m c w) \<noteq> Returned (Some (errors_New ''No active session''))
       \<and> Listen e c w = (Returned (Some (errors_New ''No active session'')), c, w)"
proof -
  from assms have sm: "SendMessage e m c w
           = (map_outcome (map_option Foreign) (Encode e (trace w) None m), c,
              emit (EvEncode None m) w)"
    by (simp add: SendMessage_def)
  have ne: "map_outcome (map_option Foreign) (Encode e (trace w) None m)
      \<noteq> Returned (Some (errors_New ''No active session''))"
    by (cases "Encode e (trace w) None m") auto
  from assms have li: "Listen e c w = (Returned (Some (errors_New ''No active session'')), c, w)"
    by (simp add: Listen_def)
  from sm ne li show ?thesis by (simp add: emit_def)
qed

theorem SendMessage_ignores_nil_Connection_witness:
  "SendMessage fake_env (Encodable 0) (plain_client\<lparr>Session := Some (session_of None)\<rparr>)
      empty_world
     = (Panicked InvalidMemoryAddress, plain_client\<lparr>Session := Some (session_of None)\<rparr>,
        emit (EvEncode None (Encodable 0)) empty_world)
   \<and> Listen fake_env (plain_client\<lparr>Session := Some (session_of None)\<rparr>) empty_world
     = (Returned (Some (errors_New ''No active session'')),
        plain_client\<lparr>Session := Some (session_of None)\<rparr>, empty_world)"
proof -
  let ?c = "plain_client\<lparr>Session := Some (session_of None)\<rparr>"
  have h1: "Session ?c = Some (session_of None)" by simp
  have h2: "Connection (session_of None) = None" by (simp add: session_of_def)
  have h3: "Encode fake_env (trace empty_world) None (Encodable 0) = Panicked InvalidMemoryAddress"
    by (simp add: fake_env_def)
  note r = SendMessage_ignores_nil_Connection [OF h1 h2, of fake_env "Encodable 0" empty_world]
  from r h3 have a: "SendMessage fake_env (Encodable 0) ?c empty_world
     = (Panicked InvalidMemoryAddress, ?c, emit (EvEncode None (Encodable 0)) empty_world)"
    by blast
  from r have b: "Listen fake_env ?c empty_world
     = (Returned (Some (errors_New ''No active session'')), ?c, empty_world)"
    by blast
  from a b show ?thesis by (intro conjI)
qed

end
